theory Spec2Isabelle
  imports Main "HOL-Library.Word"
begin

unbundle bit_operations_syntax

section \<open>Python values\<close>

text \<open>
  The bot (\<^verbatim>\<open>bot.py\<close>) receives Trello webhook calls over HTTP, checks their signature,
  decodes the JSON body and posts an embed to a Discord channel. This theory embeds the
  class \<^verbatim>\<open>TrelloWebhookHandler\<close>: its five methods become the functions
  \<open>verify_webhook_signature\<close>, \<open>create_embed\<close>, \<open>send_discord_message\<close>,
  \<open>process_trello_event\<close> and \<open>handle_webhook\<close>, in that order.

  A Python \<^verbatim>\<open>str\<close> is a sequence of Unicode code points, and \<^verbatim>\<open>len\<close> and slicing count
  code points. The titles of the embeds start with characters beyond the Basic
  Multilingual Plane, so a string is modelled as the list of its code points.
  \<open>lit\<close> turns an ASCII literal into such a string.
\<close>

type_synonym pystr = "nat list"

type_synonym byte = "8 word"

definition lit :: "string \<Rightarrow> pystr" where
  "lit s = map of_char s"

text \<open>
  The exceptions the handler can meet. The first four are raised by operations of the
  source itself on a decoded JSON value of an unexpected type, on a date that does not
  parse or on a missing key; \<open>OverflowError\<close>, like \<open>ValueError\<close>, by
  \<^verbatim>\<open>datetime.astimezone\<close> near the ends of the calendar; \<open>UnicodeEncodeError\<close> by
  \<^verbatim>\<open>str.encode\<close>; the last three come from the collaborators (\<^verbatim>\<open>request.json()\<close> and
  \<^verbatim>\<open>channel.send\<close>).
\<close>

datatype py_error =
    AttributeError
  | TypeError
  | ValueError
  | KeyError
  | OverflowError
  | UnicodeEncodeError
  | JSONDecodeError
  | UnicodeDecodeError
  | DiscordException

text \<open>
  What \<^verbatim>\<open>json.loads\<close> returns: \<^verbatim>\<open>None\<close>, a bool, an int, a float, a str, a list or a
  dict with string keys. A float is carried as the text \<^verbatim>\<open>repr\<close> prints for it, the only
  thing the handler can do with one. A dict is the list of its items in insertion order
  (the keys of a decoded dict are distinct); a lookup takes the first item with the key.
\<close>

datatype pyval =
    PNone
  | PBool bool
  | PInt int
  | PFloat pystr
  | PStr pystr
  | PList "pyval list"
  | PDict "(pystr \<times> pyval) list"

text \<open>Sequencing of operations that may raise: the first exception ends the computation.\<close>

definition bindE :: "py_error + 'a \<Rightarrow> ('a \<Rightarrow> py_error + 'b) \<Rightarrow> py_error + 'b" where
  "bindE m f = (case m of Inl e \<Rightarrow> Inl e | Inr x \<Rightarrow> f x)"

text \<open>
  \<^verbatim>\<open>v.get(k, default)\<close>. Only a dict has the method; on any other value the attribute
  lookup raises \<^verbatim>\<open>AttributeError\<close>.
\<close>

fun py_get :: "pyval \<Rightarrow> pystr \<Rightarrow> pyval \<Rightarrow> py_error + pyval" where
  "py_get (PDict kvs) k dflt = Inr (case map_of kvs k of None \<Rightarrow> dflt | Some v \<Rightarrow> v)"
| "py_get _ k dflt = Inl AttributeError"

text \<open>\<^verbatim>\<open>k in v\<close> for a string \<open>k\<close>: key membership in a dict, element membership in a
  list, substring test in a string, \<^verbatim>\<open>TypeError\<close> on a value that is not iterable.\<close>

fun is_substring :: "pystr \<Rightarrow> pystr \<Rightarrow> bool" where
  "is_substring k [] = (k = [])"
| "is_substring k (c # cs) = (take (length k) (c # cs) = k \<or> is_substring k cs)"

fun py_contains :: "pystr \<Rightarrow> pyval \<Rightarrow> py_error + bool" where
  "py_contains k (PDict kvs) = Inr (k \<in> set (map fst kvs))"
| "py_contains k (PList xs) = Inr (PStr k \<in> set xs)"
| "py_contains k (PStr s) = Inr (is_substring k s)"
| "py_contains k _ = Inl TypeError"

text \<open>\<^verbatim>\<open>v[k]\<close> for a string \<open>k\<close>: the value of the key in a dict, \<^verbatim>\<open>KeyError\<close> when the key
  is missing, \<^verbatim>\<open>TypeError\<close> on a list or a string, whose indices are integers, and on
  every value that is not subscriptable.\<close>

fun py_getitem :: "pyval \<Rightarrow> pystr \<Rightarrow> py_error + pyval" where
  "py_getitem (PDict kvs) k = (case map_of kvs k of None \<Rightarrow> Inl KeyError | Some v \<Rightarrow> Inr v)"
| "py_getitem _ k = Inl TypeError"

text \<open>\<^verbatim>\<open>len(v)\<close>.\<close>

fun py_len :: "pyval \<Rightarrow> py_error + nat" where
  "py_len (PStr s) = Inr (length s)"
| "py_len (PList xs) = Inr (length xs)"
| "py_len (PDict kvs) = Inr (length kvs)"
| "py_len _ = Inl TypeError"

text \<open>\<^verbatim>\<open>v[:n] + s\<close> for a string \<open>s\<close>: a string is cut and extended; a list is cut, and
  adding a string to it raises; nothing else can be sliced.\<close>

fun py_slice_add :: "pyval \<Rightarrow> nat \<Rightarrow> pystr \<Rightarrow> py_error + pyval" where
  "py_slice_add (PStr t) n s = Inr (PStr (take n t @ s))"
| "py_slice_add _ n s = Inl TypeError"

text \<open>\<^verbatim>\<open>v.replace(c, s)\<close> for a one-character pattern \<open>c\<close>: every occurrence is
  replaced. Only a string has the method.\<close>

fun py_replace :: "pyval \<Rightarrow> nat \<Rightarrow> pystr \<Rightarrow> py_error + pystr" where
  "py_replace (PStr t) c s = Inr (concat (map (\<lambda>x. if x = c then s else [x]) t))"
| "py_replace _ c s = Inl AttributeError"

subsection \<open>Conversion to text\<close>

text \<open>
  An f-string field \<^verbatim>\<open>{v}\<close> and \<^verbatim>\<open>Embed.add_field\<close> both take \<^verbatim>\<open>str(v)\<close>. For a list or
  a dict that is the \<^verbatim>\<open>repr\<close> of the elements. \<^verbatim>\<open>repr\<close> of a string picks the quote,
  escapes the quote, the backslash, tab, newline and carriage return, and writes the
  other ASCII control characters as \<^verbatim>\<open>\xNN\<close>. Among the characters beyond ASCII it keeps
  the printable ones, which is a table of the Unicode database; here every such
  character is kept. No statement below is about the text of a list or a dict.
\<close>

function decimal :: "nat \<Rightarrow> pystr" where
  "decimal n = (if n < 10 then [48 + n] else decimal (n div 10) @ [48 + n mod 10])"
  by pat_completeness auto
termination
  by (relation "measure id") auto

declare decimal.simps [simp del]

definition hex_digit :: "nat \<Rightarrow> nat" where
  "hex_digit n = (if n < 10 then 48 + n else 87 + n)"

definition repr_char :: "nat \<Rightarrow> nat \<Rightarrow> pystr" where
  "repr_char quote c =
     (if c = quote \<or> c = 92 then [92, c]
      else if c = 9 then [92, 116]
      else if c = 10 then [92, 110]
      else if c = 13 then [92, 114]
      else if c < 32 \<or> c = 127 then [92, 120, hex_digit (c div 16), hex_digit (c mod 16)]
      else [c])"

definition repr_str :: "pystr \<Rightarrow> pystr" where
  "repr_str s =
     (let quote = (if 39 \<in> set s \<and> 34 \<notin> set s then 34 else 39)
      in [quote] @ concat (map (repr_char quote) s) @ [quote])"

fun join :: "pystr \<Rightarrow> pystr list \<Rightarrow> pystr" where
  "join sep [] = []"
| "join sep [x] = x"
| "join sep (x # y # ys) = x @ sep @ join sep (y # ys)"

fun py_repr :: "pyval \<Rightarrow> pystr" where
  "py_repr PNone = lit ''None''"
| "py_repr (PBool b) = (if b then lit ''True'' else lit ''False'')"
| "py_repr (PInt i) = (if i < 0 then 45 # decimal (nat (- i)) else decimal (nat i))"
| "py_repr (PFloat r) = r"
| "py_repr (PStr s) = repr_str s"
| "py_repr (PList xs) = lit ''['' @ join (lit '', '') (map py_repr xs) @ lit '']''"
| "py_repr (PDict kvs) =
     lit ''{'' @ join (lit '', '') (map (\<lambda>kv. repr_str (fst kv) @ lit '': '' @ py_repr (snd kv)) kvs)
       @ lit ''}''"

fun py_str :: "pyval \<Rightarrow> pystr" where
  "py_str (PStr s) = s"
| "py_str v = py_repr v"

section \<open>Library functions the handler calls\<close>

subsection \<open>\<^verbatim>\<open>str.encode\<close>\<close>

text \<open>
  \<^verbatim>\<open>s.encode()\<close> is the UTF-8 encoding. A surrogate (a string read from the environment
  can hold one) has no encoding and raises; a number from \<open>0x110000\<close> on is no code
  point of a Python string.
\<close>

definition encode_char :: "nat \<Rightarrow> py_error + byte list" where
  "encode_char c =
     (if c < 0x80 then Inr [of_nat c]
      else if c < 0x800 then Inr [of_nat (0xC0 + c div 64), of_nat (0x80 + c mod 64)]
      else if 0xD800 \<le> c \<and> c < 0xE000 then Inl UnicodeEncodeError
      else if c < 0x10000 then
        Inr [of_nat (0xE0 + c div 4096), of_nat (0x80 + c div 64 mod 64), of_nat (0x80 + c mod 64)]
      else if c < 0x110000 then
        Inr [of_nat (0xF0 + c div 262144), of_nat (0x80 + c div 4096 mod 64),
             of_nat (0x80 + c div 64 mod 64), of_nat (0x80 + c mod 64)]
      else Inl UnicodeEncodeError)"

fun py_encode :: "pystr \<Rightarrow> py_error + byte list" where
  "py_encode [] = Inr []"
| "py_encode (c # cs) =
     bindE (encode_char c) (\<lambda>b. bindE (py_encode cs) (\<lambda>bs. Inr (b @ bs)))"

subsection \<open>\<^verbatim>\<open>hmac.new(key, msg, hashlib.sha1).hexdigest()\<close>\<close>

text \<open>
  SHA-1 as FIPS 180 defines it: the message is padded to a multiple of 64 bytes with
  the byte \<open>0x80\<close>, zeros and the bit length as a 64-bit big-endian number; each block
  of sixteen big-endian words is expanded to eighty words and run through eighty
  rounds; the digest is the five chaining words, big-endian.
\<close>

definition be32 :: "byte list \<Rightarrow> 32 word" where
  "be32 bs = foldl (\<lambda>w b. push_bit 8 w OR ucast b) 0 bs"

definition bytes_of_word32 :: "32 word \<Rightarrow> byte list" where
  "bytes_of_word32 w =
     [ucast (drop_bit 24 w), ucast (drop_bit 16 w), ucast (drop_bit 8 w), ucast w]"

definition bytes_of_word64 :: "64 word \<Rightarrow> byte list" where
  "bytes_of_word64 w = map (\<lambda>i. ucast (drop_bit (8 * (7 - i)) w)) [0..<8]"

definition sha1_pad :: "byte list \<Rightarrow> byte list" where
  "sha1_pad m =
     m @ [0x80] @ replicate ((119 - length m mod 64) mod 64) 0
       @ bytes_of_word64 (of_nat (8 * length m))"

fun block_words :: "nat \<Rightarrow> byte list \<Rightarrow> 32 word list" where
  "block_words 0 bs = []"
| "block_words (Suc n) bs = be32 (take 4 bs) # block_words n (drop 4 bs)"

fun schedule :: "nat \<Rightarrow> 32 word list \<Rightarrow> 32 word list" where
  "schedule 0 w = w"
| "schedule (Suc n) w =
     (let t = length w
      in schedule n
           (w @ [word_rotl 1 (w ! (t - 3) XOR w ! (t - 8) XOR w ! (t - 14) XOR w ! (t - 16))]))"

type_synonym sha1_state = "32 word \<times> 32 word \<times> 32 word \<times> 32 word \<times> 32 word"

definition sha1_f :: "nat \<Rightarrow> 32 word \<Rightarrow> 32 word \<Rightarrow> 32 word \<Rightarrow> 32 word" where
  "sha1_f t b c d =
     (if t < 20 then (b AND c) OR (NOT b AND d)
      else if t < 40 then b XOR c XOR d
      else if t < 60 then (b AND c) OR (b AND d) OR (c AND d)
      else b XOR c XOR d)"

definition sha1_k :: "nat \<Rightarrow> 32 word" where
  "sha1_k t =
     (if t < 20 then 0x5A827999 else if t < 40 then 0x6ED9EBA1
      else if t < 60 then 0x8F1BBCDC else 0xCA62C1D6)"

definition sha1_round :: "32 word list \<Rightarrow> sha1_state \<Rightarrow> nat \<Rightarrow> sha1_state" where
  "sha1_round w s t =
     (case s of (a, b, c, d, e) \<Rightarrow>
        (word_rotl 5 a + sha1_f t b c d + e + sha1_k t + w ! t, a, word_rotl 30 b, c, d))"

definition sha1_compress :: "sha1_state \<Rightarrow> byte list \<Rightarrow> sha1_state" where
  "sha1_compress h block =
     (let w = schedule 64 (block_words 16 block)
      in case (h, foldl (sha1_round w) h [0..<80]) of
           ((h0, h1, h2, h3, h4), (a, b, c, d, e)) \<Rightarrow>
             (h0 + a, h1 + b, h2 + c, h3 + d, h4 + e))"

function sha1_blocks :: "sha1_state \<Rightarrow> byte list \<Rightarrow> sha1_state" where
  "sha1_blocks h m =
     (if length m < 64 then h else sha1_blocks (sha1_compress h (take 64 m)) (drop 64 m))"
  by pat_completeness auto
termination
  by (relation "measure (\<lambda>(h, m). length m)") auto

declare sha1_blocks.simps [simp del]

definition sha1 :: "byte list \<Rightarrow> byte list" where
  "sha1 m =
     (case sha1_blocks (0x67452301, 0xEFCDAB89, 0x98BADCFE, 0x10325476, 0xC3D2E1F0) (sha1_pad m) of
        (h0, h1, h2, h3, h4) \<Rightarrow> concat (map bytes_of_word32 [h0, h1, h2, h3, h4]))"

text \<open>HMAC as RFC 2104 defines it, with the 64-byte block of SHA-1: a longer key is
  hashed first, the key is padded with zeros, and the message is hashed between the
  inner and the outer pad.\<close>

definition hmac_sha1 :: "byte list \<Rightarrow> byte list \<Rightarrow> byte list" where
  "hmac_sha1 key msg =
     (let k = (if length key > 64 then sha1 key else key);
          k0 = k @ replicate (64 - length k) 0
      in sha1 (map (\<lambda>b. b XOR 0x5C) k0 @ sha1 (map (\<lambda>b. b XOR 0x36) k0 @ msg)))"

text \<open>\<^verbatim>\<open>hexdigest\<close>: two lowercase hexadecimal digits for each byte.\<close>

definition hexdigest :: "byte list \<Rightarrow> pystr" where
  "hexdigest bs =
     concat (map (\<lambda>b. [hex_digit (unat b div 16), hex_digit (unat b mod 16)]) bs)"

subsection \<open>\<^verbatim>\<open>hmac.compare_digest\<close>\<close>

text \<open>
  On two strings the comparison is defined for ASCII only: when either string holds a
  character beyond ASCII it raises \<^verbatim>\<open>TypeError\<close>. Otherwise it is equality (in constant
  time, which the model does not observe).
\<close>

definition is_ascii :: "pystr \<Rightarrow> bool" where
  "is_ascii s = list_all (\<lambda>c. c < 128) s"

definition compare_digest :: "pystr \<Rightarrow> pystr \<Rightarrow> py_error + bool" where
  "compare_digest a b = (if is_ascii a \<and> is_ascii b then Inr (a = b) else Inl TypeError)"

subsection \<open>\<^verbatim>\<open>datetime.fromisoformat\<close>\<close>

text \<open>
  The library documents the accepted strings as
  \<^verbatim>\<open>YYYY-MM-DD[*HH[:MM[:SS[.fff[fff]]]][+HH:MM[:SS[.ffffff]]]]\<close>, where \<^verbatim>\<open>*\<close> is any one
  character, and raises \<^verbatim>\<open>ValueError\<close> on every other string and on a field out of
  range. (Later versions of the library accept further ISO 8601 forms; the date Trello
  sends, such as \<^verbatim>\<open>2024-01-15T10:30:00.000Z\<close> after the handler has replaced the
  \<^verbatim>\<open>Z\<close>, and the empty string are read the same by all of them.) The offset of the
  time zone is kept in microseconds.
\<close>

record datetime =
  year :: nat
  month :: nat
  day :: nat
  hour :: nat
  minute :: nat
  second :: nat
  microsecond :: nat
  tzinfo :: "int option"

definition parse_digits :: "pystr \<Rightarrow> nat option" where
  "parse_digits s =
     (if list_all (\<lambda>c. 48 \<le> c \<and> c \<le> 57) s
      then Some (foldl (\<lambda>n c. 10 * n + (c - 48)) 0 s) else None)"

definition parse_isoformat_date :: "pystr \<Rightarrow> (nat \<times> nat \<times> nat) option" where
  "parse_isoformat_date s =
     (if length s = 10 \<and> s ! 4 = 45 \<and> s ! 7 = 45 then
        (case (parse_digits (take 4 s), parse_digits (take 2 (drop 5 s)),
               parse_digits (take 2 (drop 8 s))) of
           (Some y, Some m, Some d) \<Rightarrow> Some (y, m, d)
         | _ \<Rightarrow> None)
      else None)"

definition parse_hh_mm_ss_ff :: "pystr \<Rightarrow> (nat \<times> nat \<times> nat \<times> nat) option" where
  "parse_hh_mm_ss_ff s =
     (let n = length s;
          hh = parse_digits (take 2 s);
          mm = (if n < 5 then Some 0 else parse_digits (take 2 (drop 3 s)));
          ss = (if n < 8 then Some 0 else parse_digits (take 2 (drop 6 s)));
          ff = (if n < 12 then Some 0
                else map_option (\<lambda>f. if n = 12 then f * 1000 else f) (parse_digits (drop 9 s)))
      in if (n = 2 \<or> n = 5 \<or> n = 8 \<or> n = 12 \<or> n = 15)
            \<and> (n < 5 \<or> s ! 2 = 58) \<and> (n < 8 \<or> s ! 5 = 58) \<and> (n < 12 \<or> s ! 8 = 46) then
           (case (hh, mm, ss, ff) of
              (Some h, Some m, Some sec, Some f) \<Rightarrow> Some (h, m, sec, f)
            | _ \<Rightarrow> None)
         else None)"

definition parse_isoformat_time ::
    "pystr \<Rightarrow> ((nat \<times> nat \<times> nat \<times> nat) \<times> int option) option" where
  "parse_isoformat_time t =
     (let is_sign = (\<lambda>c. c = 43 \<or> c = 45) in
      case parse_hh_mm_ss_ff (takeWhile (\<lambda>c. \<not> is_sign c) t) of
        None \<Rightarrow> None
      | Some comps \<Rightarrow>
          (case dropWhile (\<lambda>c. \<not> is_sign c) t of
             [] \<Rightarrow> Some (comps, None)
           | sign # tz \<Rightarrow>
               if length tz = 5 \<or> length tz = 8 \<or> length tz = 15 then
                 (case parse_hh_mm_ss_ff tz of
                    None \<Rightarrow> None
                  | Some (h, m, sec, f) \<Rightarrow>
                      Some (comps,
                        Some ((if sign = 45 then - 1 else 1)
                              * int (((h * 60 + m) * 60 + sec) * 1000000 + f))))
               else None))"

definition days_in_month :: "nat \<Rightarrow> nat \<Rightarrow> nat" where
  "days_in_month y m =
     (if m = 2 then (if y mod 4 = 0 \<and> (y mod 100 \<noteq> 0 \<or> y mod 400 = 0) then 29 else 28)
      else if m = 4 \<or> m = 6 \<or> m = 9 \<or> m = 11 then 30 else 31)"

definition fromisoformat :: "pystr \<Rightarrow> py_error + datetime" where
  "fromisoformat s =
     (case parse_isoformat_date (take 10 s) of
        None \<Rightarrow> Inl ValueError
      | Some (y, m, d) \<Rightarrow>
          (case (if length s \<le> 10 then Some ((0, 0, 0, 0), None)
                 else parse_isoformat_time (drop 11 s)) of
             None \<Rightarrow> Inl ValueError
           | Some ((h, mi, sec, f), tz) \<Rightarrow>
               if 1 \<le> y \<and> y \<le> 9999 \<and> 1 \<le> m \<and> m \<le> 12 \<and> 1 \<le> d \<and> d \<le> days_in_month y m
                  \<and> h < 24 \<and> mi < 60 \<and> sec < 60
                  \<and> (case tz of None \<Rightarrow> True | Some off \<Rightarrow> \<bar>off\<bar> < 86400000000)
               then Inr \<lparr>year = y, month = m, day = d, hour = h, minute = mi, second = sec,
                         microsecond = f, tzinfo = tz\<rparr>
               else Inl ValueError))"

section \<open>The embed\<close>

text \<open>
  \<^verbatim>\<open>discord.Embed\<close>, reduced to what the handler sets: the four arguments of the
  constructor and the fields \<^verbatim>\<open>add_field\<close> appends, each with the text of its value
  (\<open>embed_fields\<close> is the attribute \<^verbatim>\<open>fields\<close>). The constructor itself comes after
  the environment, which it reads.
\<close>

record embed_field =
  field_name :: pystr
  field_value :: pystr
  field_inline :: bool

record embed =
  title :: pystr
  description :: pystr
  color :: nat
  timestamp :: datetime
  embed_fields :: "embed_field list"

definition add_field :: "embed \<Rightarrow> pystr \<Rightarrow> pyval \<Rightarrow> bool \<Rightarrow> embed" where
  "add_field e n v i =
     e\<lparr>embed_fields := embed_fields e @ [\<lparr>field_name = n, field_value = py_str v, field_inline = i\<rparr>]\<rparr>"

section \<open>The collaborators\<close>

text \<open>
  The aiohttp request, as the handler reads it: \<open>headers\<close> is
  \<^verbatim>\<open>request.headers.get\<close>, \<open>read\<close> the raw body \<^verbatim>\<open>request.read()\<close> returns, and \<open>json\<close>
  what \<^verbatim>\<open>request.json()\<close> does with that body: the decoded value, or the exception it
  raises on a body that is not JSON.
\<close>

record request =
  headers :: "pystr \<Rightarrow> pystr option"
  read :: "byte list"
  json :: "py_error + pyval"

text \<open>
  What is fixed before a request arrives: the module constant
  \<^verbatim>\<open>TRELLO_WEBHOOK_SECRET\<close> (\<^verbatim>\<open>os.environ.get\<close>: the variable's text, or \<^verbatim>\<open>None\<close>), and
  what \<^verbatim>\<open>bot.get_channel(DISCORD_CHANNEL_ID)\<close> returns: \<^verbatim>\<open>None\<close>, or a channel, which is
  its method \<^verbatim>\<open>send\<close>: for each embed, the exception the call raises, if any. The third
  part is the time zone of the host: \<open>astimezone env value\<close> is what
  \<^verbatim>\<open>value.astimezone()\<close> does with a datetime that has no offset: it reads the datetime
  as local time and returns it with the offset of the host's zone, or raises
  \<^verbatim>\<open>ValueError\<close> or \<^verbatim>\<open>OverflowError\<close> where the zone's rules leave the calendar.
\<close>

record env =
  TRELLO_WEBHOOK_SECRET :: "pystr option"
  get_channel :: "(embed \<Rightarrow> py_error option) option"
  astimezone :: "datetime \<Rightarrow> py_error + datetime"

text \<open>
  The constructor \<^verbatim>\<open>discord.Embed(title=, description=, color=, timestamp=)\<close>. It
  assigns the timestamp through the property setter, which keeps a datetime that has an
  offset and replaces one that has none by \<^verbatim>\<open>value.astimezone()\<close>; an exception of
  that call leaves the constructor.
\<close>

definition set_timestamp :: "env \<Rightarrow> datetime \<Rightarrow> py_error + datetime" where
  "set_timestamp env value = (if tzinfo value = None then astimezone env value else Inr value)"

definition Embed :: "env \<Rightarrow> pystr \<Rightarrow> pystr \<Rightarrow> nat \<Rightarrow> datetime \<Rightarrow> py_error + embed" where
  "Embed env t d c ts =
     bindE (set_timestamp env ts) (\<lambda>value.
     Inr \<lparr>title = t, description = d, color = c, timestamp = value, embed_fields = []\<rparr>)"

text \<open>
  What a request leaves behind, in order: the calls of \<^verbatim>\<open>request.json()\<close>,
  \<^verbatim>\<open>bot.get_channel\<close>, \<^verbatim>\<open>create_embed\<close> and \<^verbatim>\<open>channel.send\<close>, and the four
  \<^verbatim>\<open>logger.error\<close> lines of the handler with the exception they print.
\<close>

datatype log_record =
    Error_handling_webhook py_error
  | Error_processing_Trello_event py_error
  | Channel_not_found
  | Error_sending_Discord_message py_error

datatype effect =
    Call_json
  | Call_get_channel
  | Call_create_embed
  | Call_send embed
  | Log log_record

record response =
  status :: nat
  response_text :: pystr

section \<open>The handler\<close>

subsection \<open>\<^verbatim>\<open>verify_webhook_signature\<close>\<close>

text \<open>\<^verbatim>\<open>not x\<close> holds of \<^verbatim>\<open>None\<close> and of the empty string.\<close>

definition verify_webhook_signature :: "env \<Rightarrow> request \<Rightarrow> py_error + bool" where
  "verify_webhook_signature env request =
     (case TRELLO_WEBHOOK_SECRET env of
        None \<Rightarrow> Inr True
      | Some secret \<Rightarrow>
          if secret = [] then Inr True
          else
            (case headers request (lit ''X-Trello-Webhook'') of
               None \<Rightarrow> Inr False
             | Some signature \<Rightarrow>
                 if signature = [] then Inr False
                 else
                   (let body = read request in
                    bindE (py_encode secret) (\<lambda>key.
                      let expected_signature = hexdigest (hmac_sha1 key body)
                      in compare_digest signature expected_signature))))"

subsection \<open>\<^verbatim>\<open>create_embed\<close>\<close>

text \<open>
  The method is one chain of \<^verbatim>\<open>if\<close>/\<^verbatim>\<open>elif\<close> on the action type; each branch is a
  definition of its own here, named after the type, and \<open>create_embed\<close> is the chain.
  The arguments of each call are evaluated in the order of the source, so the first
  exception is the one Python raises. The titles start with the code points of the
  emoji the source writes. The environment is passed along for the constructor of
  the embed, which reads the zone of the host. \<open>parse_date\<close> is
  \<^verbatim>\<open>datetime.fromisoformat(date.replace('Z', '+00:00'))\<close>, \<open>get_data action k d\<close> is
  \<^verbatim>\<open>action.get('data', {}).get(k, d)\<close>, \<open>emphasized v\<close> the f-string \<^verbatim>\<open>f"**{v}**"\<close>, and
  \<open>truncated text\<close> the conditional expression
  \<^verbatim>\<open>text[:1000] + "..." if len(text) > 1000 else text\<close>. In the branch of \<^verbatim>\<open>updateCard\<close>,
  \<open>name_changed_field\<close> is the statement under \<^verbatim>\<open>if 'name' in old_data\<close> and
  \<open>marker_field\<close> the two statements that follow it, which differ in their three
  string constants only. The variables \<open>card'\<close> and \<open>emb\<close> are the source's \<^verbatim>\<open>card\<close>
  and \<^verbatim>\<open>embed\<close>, names that HOL has taken.
\<close>

definition parse_date :: "pyval \<Rightarrow> py_error + datetime" where
  "parse_date date = bindE (py_replace date 90 (lit ''+00:00'')) fromisoformat"

definition get_data :: "pyval \<Rightarrow> pystr \<Rightarrow> pyval \<Rightarrow> py_error + pyval" where
  "get_data action k dflt =
     bindE (py_get action (lit ''data'') (PDict [])) (\<lambda>data. py_get data k dflt)"

definition emphasized :: "pyval \<Rightarrow> pystr" where
  "emphasized v = lit ''**'' @ py_str v @ lit ''**''"

definition embed_createCard :: "env \<Rightarrow> pyval \<Rightarrow> pyval \<Rightarrow> pyval \<Rightarrow> py_error + embed" where
  "embed_createCard env action member date =
     bindE (get_data action (lit ''card'') (PDict [])) (\<lambda>card'.
     bindE (get_data action (lit ''list'') (PDict [])) (\<lambda>list_info.
     bindE (py_get card' (lit ''name'') (PStr (lit ''Unknown''))) (\<lambda>card_name.
     bindE (parse_date date) (\<lambda>ts.
     bindE (Embed env (0x1F195 # lit '' New Card Created'') (emphasized card_name)
              0x00ff00 ts) (\<lambda>emb.
     bindE (py_get list_info (lit ''name'') (PStr (lit ''Unknown''))) (\<lambda>list_name.
     let emb = add_field emb (lit ''List'') list_name True in
     bindE (py_get member (lit ''fullName'') (PStr (lit ''Unknown''))) (\<lambda>full_name.
     Inr (add_field emb (lit ''Creator'') full_name True))))))))"

definition name_changed_field :: "embed \<Rightarrow> pyval \<Rightarrow> pyval \<Rightarrow> py_error + embed" where
  "name_changed_field emb old_data card' =
     bindE (py_contains (lit ''name'') old_data) (\<lambda>present.
     if present then
       bindE (py_getitem old_data (lit ''name'')) (\<lambda>old_name.
       bindE (py_get card' (lit ''name'') PNone) (\<lambda>new_name.
       Inr (add_field emb (lit ''Name Changed'')
              (PStr (lit ''From: '' @ py_str old_name @ [10] @ lit ''To: '' @ py_str new_name))
              False)))
     else Inr emb)"

definition marker_field :: "embed \<Rightarrow> pyval \<Rightarrow> string \<Rightarrow> string \<Rightarrow> string \<Rightarrow> py_error + embed" where
  "marker_field emb old_data k n v =
     bindE (py_contains (lit k) old_data) (\<lambda>present.
     Inr (if present then add_field emb (lit n) (PStr (lit v)) False else emb))"

definition embed_updateCard :: "env \<Rightarrow> pyval \<Rightarrow> pyval \<Rightarrow> pyval \<Rightarrow> py_error + embed" where
  "embed_updateCard env action member date =
     bindE (get_data action (lit ''card'') (PDict [])) (\<lambda>card'.
     bindE (get_data action (lit ''old'') (PDict [])) (\<lambda>old_data.
     bindE (py_get card' (lit ''name'') (PStr (lit ''Unknown''))) (\<lambda>card_name.
     bindE (parse_date date) (\<lambda>ts.
     bindE (Embed env (0x1F4DD # lit '' Card Updated'') (emphasized card_name)
              0xffaa00 ts) (\<lambda>emb.
     bindE (name_changed_field emb old_data card') (\<lambda>emb.
     bindE (marker_field emb old_data ''desc'' ''Description Updated'' ''Description was modified'')
       (\<lambda>emb.
     bindE (marker_field emb old_data ''pos'' ''Position Changed'' ''Card was moved'') (\<lambda>emb.
     bindE (py_get member (lit ''fullName'') (PStr (lit ''Unknown''))) (\<lambda>full_name.
     Inr (add_field emb (lit ''Updated by'') full_name True))))))))))"

definition embed_deleteCard :: "env \<Rightarrow> pyval \<Rightarrow> pyval \<Rightarrow> pyval \<Rightarrow> py_error + embed" where
  "embed_deleteCard env action member date =
     bindE (get_data action (lit ''card'') (PDict [])) (\<lambda>card'.
     bindE (py_get card' (lit ''name'') (PStr (lit ''Unknown''))) (\<lambda>card_name.
     bindE (parse_date date) (\<lambda>ts.
     bindE (Embed env ([0x1F5D1, 0xFE0F] @ lit '' Card Deleted'') (emphasized card_name)
              0xff0000 ts) (\<lambda>emb.
     bindE (py_get member (lit ''fullName'') (PStr (lit ''Unknown''))) (\<lambda>full_name.
     Inr (add_field emb (lit ''Deleted by'') full_name True))))))"

definition truncated :: "pyval \<Rightarrow> py_error + pyval" where
  "truncated text =
     bindE (py_len text) (\<lambda>n.
     if n > 1000 then py_slice_add text 1000 (lit ''...'') else Inr text)"

definition embed_commentCard :: "env \<Rightarrow> pyval \<Rightarrow> pyval \<Rightarrow> pyval \<Rightarrow> py_error + embed" where
  "embed_commentCard env action member date =
     bindE (get_data action (lit ''card'') (PDict [])) (\<lambda>card'.
     bindE (get_data action (lit ''text'') (PStr [])) (\<lambda>text.
     bindE (py_get card' (lit ''name'') (PStr (lit ''Unknown''))) (\<lambda>card_name.
     bindE (parse_date date) (\<lambda>ts.
     bindE (Embed env (0x1F4AC # lit '' New Comment'') (emphasized card_name)
              0x0099ff ts) (\<lambda>emb.
     bindE (truncated text) (\<lambda>comment.
     let emb = add_field emb (lit ''Comment'') comment False in
     bindE (py_get member (lit ''fullName'') (PStr (lit ''Unknown''))) (\<lambda>full_name.
     Inr (add_field emb (lit ''Comment by'') full_name True))))))))"

definition embed_other :: "env \<Rightarrow> pyval \<Rightarrow> pyval \<Rightarrow> pyval \<Rightarrow> py_error + embed" where
  "embed_other env action_type member date =
     bindE (parse_date date) (\<lambda>ts.
     bindE (Embed env (0x1F504 # lit '' Trello Update'') (lit ''Action: '' @ py_str action_type)
                   0x666666 ts) (\<lambda>emb.
     bindE (py_get member (lit ''fullName'') (PStr (lit ''Unknown''))) (\<lambda>full_name.
     Inr (add_field emb (lit ''User'') full_name True))))"

definition create_embed :: "env \<Rightarrow> pyval \<Rightarrow> py_error + embed" where
  "create_embed env action =
     bindE (py_get action (lit ''type'') PNone) (\<lambda>action_type.
     bindE (py_get action (lit ''memberCreator'') (PDict [])) (\<lambda>member.
     bindE (py_get action (lit ''date'') (PStr [])) (\<lambda>date.
       if action_type = PStr (lit ''createCard'') then embed_createCard env action member date
       else if action_type = PStr (lit ''updateCard'') then embed_updateCard env action member date
       else if action_type = PStr (lit ''deleteCard'') then embed_deleteCard env action member date
       else if action_type = PStr (lit ''commentCard'') then embed_commentCard env action member date
       else embed_other env action_type member date)))"

subsection \<open>\<^verbatim>\<open>send_discord_message\<close>\<close>

text \<open>The method returns nothing and raises nothing: its \<^verbatim>\<open>except Exception\<close> logs what
  \<^verbatim>\<open>create_embed\<close> or \<^verbatim>\<open>channel.send\<close> raised. Its value here is what it did.\<close>

definition send_discord_message :: "env \<Rightarrow> pyval \<Rightarrow> effect list" where
  "send_discord_message env action =
     Call_get_channel #
     (case get_channel env of
        None \<Rightarrow> [Log Channel_not_found]
      | Some send \<Rightarrow>
          Call_create_embed #
          (case create_embed env action of
             Inl e \<Rightarrow> [Log (Error_sending_Discord_message e)]
           | Inr emb \<Rightarrow>
               Call_send emb #
               (case send emb of
                  None \<Rightarrow> []
                | Some e \<Rightarrow> [Log (Error_sending_Discord_message e)])))"

subsection \<open>\<^verbatim>\<open>process_trello_event\<close>\<close>

text \<open>
  The body of the method is inside \<^verbatim>\<open>try\<close>, and its \<^verbatim>\<open>except Exception\<close> logs: a
  body that is not a dict, or an action that is not one, ends there.
  \<open>actionable\<close> is the list the source tests the action type against; \<^verbatim>\<open>in\<close> compares
  with \<^verbatim>\<open>==\<close>, and a value that is not a string equals none of the four.
\<close>

definition actionable :: "pyval list" where
  "actionable = [PStr (lit ''createCard''), PStr (lit ''updateCard''),
                 PStr (lit ''deleteCard''), PStr (lit ''commentCard'')]"

definition process_trello_event :: "env \<Rightarrow> pyval \<Rightarrow> effect list" where
  "process_trello_event env data =
     (case bindE (py_get data (lit ''action'') (PDict [])) (\<lambda>action.
           bindE (py_get action (lit ''type'') PNone) (\<lambda>action_type.
           Inr (action, action_type))) of
        Inl e \<Rightarrow> [Log (Error_processing_Trello_event e)]
      | Inr (action, action_type) \<Rightarrow>
          if action_type \<in> set actionable then send_discord_message env action else [])"

subsection \<open>\<^verbatim>\<open>handle_webhook\<close>\<close>

text \<open>
  The response and the trace of one \<^verbatim>\<open>POST /webhook\<close>. An exception of the signature
  check or of \<^verbatim>\<open>request.json()\<close> reaches the \<^verbatim>\<open>except Exception\<close> of the method, which
  logs it and answers 500; \<open>process_trello_event\<close> raises nothing.
\<close>

definition Response :: "nat \<Rightarrow> string \<Rightarrow> response" where
  "Response st t = \<lparr>status = st, response_text = lit t\<rparr>"

definition handle_webhook :: "env \<Rightarrow> request \<Rightarrow> response \<times> effect list" where
  "handle_webhook env request =
     (case verify_webhook_signature env request of
        Inl e \<Rightarrow> (Response 500 ''Internal Server Error'', [Log (Error_handling_webhook e)])
      | Inr False \<Rightarrow> (Response 401 ''Unauthorized'', [])
      | Inr True \<Rightarrow>
          (case json request of
             Inl e \<Rightarrow>
               (Response 500 ''Internal Server Error'', [Call_json, Log (Error_handling_webhook e)])
           | Inr data \<Rightarrow> (Response 200 ''OK'', Call_json # process_trello_event env data)))"

section \<open>Notions of the specification\<close>

text \<open>
  A secret is configured when the environment variable holds a text that is not empty:
  the handler tests \<^verbatim>\<open>not TRELLO_WEBHOOK_SECRET\<close>, which holds of \<^verbatim>\<open>None\<close> and of
  the empty string alike.
\<close>

definition configured :: "env \<Rightarrow> bool" where
  "configured env =
     (case TRELLO_WEBHOOK_SECRET env of None \<Rightarrow> False | Some secret \<Rightarrow> secret \<noteq> [])"

text \<open>
  The event kinds of the specification and its table from action types to kinds. The
  argument is what \<^verbatim>\<open>action.get('type')\<close> returns, \<^verbatim>\<open>None\<close> when the action has no
  type. The source has no such function: \<open>process_trello_event\<close> tests membership in
  a list of four strings and \<open>create_embed\<close> compares with each of them in turn; the
  theorems below relate both to this table.
\<close>

datatype EventKind = CardCreated | CardUpdated | CardDeleted | CardCommented | Unknown

definition classify :: "pyval \<Rightarrow> EventKind" where
  "classify action_type =
     (if action_type = PStr (lit ''createCard'') then CardCreated
      else if action_type = PStr (lit ''updateCard'') then CardUpdated
      else if action_type = PStr (lit ''deleteCard'') then CardDeleted
      else if action_type = PStr (lit ''commentCard'') then CardCommented
      else Unknown)"

text \<open>
  The event tree of the specification is sparse: every part may be absent. An action,
  given by its items \<open>a\<close>, is such a tree when each part that is present has the type
  the specification gives it: \<^verbatim>\<open>memberCreator\<close>, \<^verbatim>\<open>data\<close> and, inside \<^verbatim>\<open>data\<close>,
  \<^verbatim>\<open>card\<close>, \<^verbatim>\<open>list\<close> and \<^verbatim>\<open>old\<close> are records (dicts), and \<^verbatim>\<open>text\<close> is a string.
  \<open>sub a k\<close> is the record under the key \<open>k\<close>, empty when the key is absent, and
  \<open>text_or dflt d k\<close> the text of the entry \<open>k\<close> of \<open>d\<close>, \<open>dflt\<close> when it is absent.
\<close>

definition absent_or_dict :: "pyval option \<Rightarrow> bool" where
  "absent_or_dict v = (case v of None \<Rightarrow> True | Some (PDict d) \<Rightarrow> True | Some _ \<Rightarrow> False)"

definition absent_or_str :: "pyval option \<Rightarrow> bool" where
  "absent_or_str v = (case v of None \<Rightarrow> True | Some (PStr s) \<Rightarrow> True | Some _ \<Rightarrow> False)"

definition sub :: "(pystr \<times> pyval) list \<Rightarrow> string \<Rightarrow> (pystr \<times> pyval) list" where
  "sub a k = (case map_of a (lit k) of Some (PDict d) \<Rightarrow> d | _ \<Rightarrow> [])"

definition text_or :: "string \<Rightarrow> (pystr \<times> pyval) list \<Rightarrow> string \<Rightarrow> pystr" where
  "text_or dflt d k = (case map_of d (lit k) of None \<Rightarrow> lit dflt | Some v \<Rightarrow> py_str v)"

definition sparse_event :: "(pystr \<times> pyval) list \<Rightarrow> bool" where
  "sparse_event a =
     (absent_or_dict (map_of a (lit ''memberCreator''))
      \<and> absent_or_dict (map_of a (lit ''data''))
      \<and> absent_or_dict (map_of (sub a ''data'') (lit ''card''))
      \<and> absent_or_dict (map_of (sub a ''data'') (lit ''list''))
      \<and> absent_or_dict (map_of (sub a ''data'') (lit ''old''))
      \<and> absent_or_str (map_of (sub a ''data'') (lit ''text'')))"

text \<open>
  What the first three lines of \<open>create_embed\<close> read from the action: the entry
  \<^verbatim>\<open>date\<close>, the empty string when absent; the entry \<^verbatim>\<open>type\<close>, \<^verbatim>\<open>None\<close> when absent; the
  entry \<^verbatim>\<open>memberCreator\<close>, the empty dict when absent.
\<close>

definition date_of :: "(pystr \<times> pyval) list \<Rightarrow> pyval" where
  "date_of a = (case map_of a (lit ''date'') of None \<Rightarrow> PStr [] | Some d \<Rightarrow> d)"

definition type_of :: "(pystr \<times> pyval) list \<Rightarrow> pyval" where
  "type_of a = (case map_of a (lit ''type'') of None \<Rightarrow> PNone | Some v \<Rightarrow> v)"

definition member_of :: "(pystr \<times> pyval) list \<Rightarrow> pyval" where
  "member_of a = (case map_of a (lit ''memberCreator'') of None \<Rightarrow> PDict [] | Some v \<Rightarrow> v)"

text \<open>
  The timestamp the embed of an action gets: its date, parsed, and placed in the zone of
  the host when it has no offset. It is defined when the date parses and
  \<^verbatim>\<open>discord.Embed\<close> accepts the result; a date with an offset, as Trello sends it, is
  accepted as it is.
\<close>

definition timestamp_of :: "env \<Rightarrow> (pystr \<times> pyval) list \<Rightarrow> py_error + datetime" where
  "timestamp_of env a = bindE (parse_date (date_of a)) (set_timestamp env)"

text \<open>
  The parts of the expected messages. \<open>by_field n a\<close> is the field that names the
  creator, \<open>comment_of a\<close> the comment as the specification cuts it, \<open>marker\<close> one of the
  two marker fields of an update, and \<open>name_changed\<close> the field \<^verbatim>\<open>Name Changed\<close> as the
  handler builds it.
\<close>

definition by_field :: "string \<Rightarrow> (pystr \<times> pyval) list \<Rightarrow> embed_field" where
  "by_field n a =
     \<lparr>field_name = lit n,
      field_value = text_or ''Unknown'' (sub a ''memberCreator'') ''fullName'',
      field_inline = True\<rparr>"

definition card_description :: "(pystr \<times> pyval) list \<Rightarrow> pystr" where
  "card_description a =
     lit ''**'' @ text_or ''Unknown'' (sub (sub a ''data'') ''card'') ''name'' @ lit ''**''"

definition comment_of :: "(pystr \<times> pyval) list \<Rightarrow> pystr" where
  "comment_of a =
     (let t = text_or [] (sub a ''data'') ''text''
      in if length t > 1000 then take 1000 t @ lit ''...'' else t)"

definition marker :: "(pystr \<times> pyval) list \<Rightarrow> string \<Rightarrow> string \<Rightarrow> string \<Rightarrow> embed_field list" where
  "marker old k n v =
     (if lit k \<in> fst ` set old
      then [\<lparr>field_name = lit n, field_value = lit v, field_inline = False\<rparr>] else [])"

definition name_changed ::
    "(pystr \<times> pyval) list \<Rightarrow> (pystr \<times> pyval) list \<Rightarrow> embed_field list" where
  "name_changed old c =
     (case map_of old (lit ''name'') of
        None \<Rightarrow> []
      | Some v \<Rightarrow>
          [\<lparr>field_name = lit ''Name Changed'',
            field_value = lit ''From: '' @ py_str v @ [10] @ lit ''To: ''
                          @ py_str (case map_of c (lit ''name'') of None \<Rightarrow> PNone | Some w \<Rightarrow> w),
            field_inline = False\<rparr>])"

section \<open>Sample inputs\<close>

text \<open>
  A request whose only header is \<^verbatim>\<open>X-Trello-Webhook\<close> (or that has none), an
  environment on a host whose zone is UTC (there \<^verbatim>\<open>astimezone\<close> gives a datetime
  without offset the offset zero, and raises \<^verbatim>\<open>ValueError\<close> on the first day of the
  calendar), a date as Trello writes it with the instant it denotes, and the items of
  some actions, for the instances below.
\<close>

definition signed_request :: "pystr option \<Rightarrow> byte list \<Rightarrow> py_error + pyval \<Rightarrow> request" where
  "signed_request sig body j =
     \<lparr>headers = (\<lambda>k. if k = lit ''X-Trello-Webhook'' then sig else None),
      read = body, json = j\<rparr>"

definition utc_host :: "datetime \<Rightarrow> py_error + datetime" where
  "utc_host value =
     (if year value = 1 \<and> month value = 1 \<and> day value = 1 then Inl ValueError
      else Inr (value\<lparr>tzinfo := Some 0\<rparr>))"

definition sample_env :: "pystr option \<Rightarrow> (embed \<Rightarrow> py_error option) option \<Rightarrow> env" where
  "sample_env secret ch =
     \<lparr>TRELLO_WEBHOOK_SECRET = secret, get_channel = ch, astimezone = utc_host\<rparr>"

definition sample_date :: pyval where
  "sample_date = PStr (lit ''2024-01-15T10:30:00.000Z'')"

definition sample_instant :: datetime where
  "sample_instant =
     \<lparr>year = 2024, month = 1, day = 15, hour = 10, minute = 30, second = 0,
      microsecond = 0, tzinfo = Some 0\<rparr>"

definition typed :: "string \<Rightarrow> (pystr \<times> pyval) list \<Rightarrow> (pystr \<times> pyval) list" where
  "typed t items = (lit ''type'', PStr (lit t)) # items"

definition dated :: "(pystr \<times> pyval) list \<Rightarrow> (pystr \<times> pyval) list" where
  "dated items = (lit ''date'', sample_date) # items"

definition sparse_createCard :: "(pystr \<times> pyval) list" where
  "sparse_createCard = typed ''createCard'' [(lit ''data'', PDict [])]"

definition sprint_plan :: "(pystr \<times> pyval) list" where
  "sprint_plan =
     typed ''createCard'' (dated
       [(lit ''memberCreator'', PDict [(lit ''fullName'', PStr (lit ''Ann''))]),
        (lit ''data'',
         PDict [(lit ''card'', PDict [(lit ''name'', PStr (lit ''Sprint Plan''))]),
                (lit ''list'', PDict [(lit ''name'', PStr (lit ''Backlog''))])])])"

definition sprint_plan_embed :: embed where
  "sprint_plan_embed =
     \<lparr>title = 0x1F195 # lit '' New Card Created'', description = lit ''**Sprint Plan**'',
      color = 0x00ff00, timestamp = sample_instant,
      embed_fields =
        [\<lparr>field_name = lit ''List'', field_value = lit ''Backlog'', field_inline = True\<rparr>,
         \<lparr>field_name = lit ''Creator'', field_value = lit ''Ann'', field_inline = True\<rparr>]\<rparr>"

definition comment_event :: "pystr \<Rightarrow> (pystr \<times> pyval) list" where
  "comment_event t = typed ''commentCard'' (dated [(lit ''data'', PDict [(lit ''text'', PStr t)])])"

text \<open>
  An action of a kind the handler does not know, two channels (one whose \<^verbatim>\<open>send\<close>
  returns, one whose \<^verbatim>\<open>send\<close> raises), and the decoded body that carries an action.
\<close>

definition moveList :: "(pystr \<times> pyval) list" where
  "moveList =
     typed ''moveList''
       (dated [(lit ''memberCreator'', PDict [(lit ''fullName'', PStr (lit ''Ann''))])])"

definition failing_channel :: "embed \<Rightarrow> py_error option" where
  "failing_channel emb = Some DiscordException"

definition working_channel :: "embed \<Rightarrow> py_error option" where
  "working_channel emb = None"

definition webhook_body :: "(pystr \<times> pyval) list \<Rightarrow> pyval" where
  "webhook_body a = PDict [(lit ''action'', PDict a)]"

section \<open>Basic facts\<close>

lemma bindE_simps [simp]: "bindE (Inl e) f = Inl e" "bindE (Inr x) f = f x"
  by (simp_all add: bindE_def)

lemma bindE_eq_Inr: "bindE m f = Inr y \<longleftrightarrow> (\<exists>x. m = Inr x \<and> f x = Inr y)"
  by (cases m) simp_all

lemma lit_eq_iff [simp]: "lit a = lit b \<longleftrightarrow> a = b"
  unfolding lit_def by (simp add: inj_on_def)

lemma lit_eq_Nil [simp]: "lit s = [] \<longleftrightarrow> s = []" "[] = lit s \<longleftrightarrow> s = []"
  by (auto simp: lit_def)

lemma lit_Nil: "lit [] = []"
  by (simp add: lit_def)

lemma lit_Cons: "lit (c # cs) = of_char c # lit cs"
  by (simp add: lit_def)

lemma length_lit [simp]: "length (lit s) = length s"
  by (simp add: lit_def)

subsection \<open>The expected signature\<close>

lemma hex_digit_ascii: "n < 16 \<Longrightarrow> hex_digit n < 128"
  by (simp add: hex_digit_def)

lemma is_ascii_hexdigest: "is_ascii (hexdigest bs)"
proof -
  have "unat b div 16 < 16" for b :: byte
    using unsigned_less [of b] by (simp add: div_less_iff_less_mult)
  then show ?thesis
    by (induction bs) (simp_all add: is_ascii_def hexdigest_def hex_digit_ascii)
qed

lemma length_hexdigest: "length (hexdigest bs) = 2 * length bs"
  by (induction bs) (simp_all add: hexdigest_def)

lemma length_sha1: "length (sha1 m) = 20"
  by (simp add: sha1_def bytes_of_word32_def split: prod.splits)

lemma length_hmac_sha1: "length (hmac_sha1 key msg) = 20"
  by (simp add: hmac_sha1_def Let_def length_sha1)

lemma length_expected_signature: "length (hexdigest (hmac_sha1 key msg)) = 40"
  by (simp add: length_hexdigest length_hmac_sha1)

lemma verify_webhook_signature_ascii:
  assumes "TRELLO_WEBHOOK_SECRET env = Some secret" and "secret \<noteq> []"
    and "py_encode secret = Inr key"
    and "headers request (lit ''X-Trello-Webhook'') = Some sig" and "is_ascii sig"
  shows "verify_webhook_signature env request =
           Inr (sig = hexdigest (hmac_sha1 key (read request)))"
proof (cases "sig = []")
  case True
  with length_expected_signature [of key "read request"] assms show ?thesis
    by (auto simp: verify_webhook_signature_def)
next
  case False
  with assms show ?thesis
    by (simp add: verify_webhook_signature_def compare_digest_def is_ascii_hexdigest)
qed

lemma py_encode_s3cret: "py_encode (lit ''s3cret'') = Inr [115, 51, 99, 114, 101, 116]"
  by (simp add: lit_Cons lit_Nil encode_char_def)

subsection \<open>The date\<close>

lemma parse_date_empty: "parse_date (PStr []) = Inl ValueError"
  by (simp add: parse_date_def fromisoformat_def parse_isoformat_date_def)

lemma replace_sample_date:
  "py_replace sample_date 90 (lit ''+00:00'') =
     Inr [50, 48, 50, 52, 45, 48, 49, 45, 49, 53, 84, 49, 48, 58, 51, 48, 58, 48, 48, 46, 48, 48,
          48, 43, 48, 48, 58, 48, 48]"
  by (simp add: sample_date_def lit_Cons lit_Nil)

lemma parse_sample_day: "parse_isoformat_date [50, 48, 50, 52, 45, 48, 49, 45, 49, 53] = Some (2024, 1, 15)"
  by (simp add: parse_isoformat_date_def parse_digits_def)

lemma parse_sample_time:
  "parse_hh_mm_ss_ff [49, 48, 58, 51, 48, 58, 48, 48, 46, 48, 48, 48] = Some (10, 30, 0, 0)"
  by (simp add: parse_hh_mm_ss_ff_def parse_digits_def)

lemma parse_sample_offset: "parse_hh_mm_ss_ff [48, 48, 58, 48, 48] = Some (0, 0, 0, 0)"
  by (simp add: parse_hh_mm_ss_ff_def parse_digits_def)

lemma parse_sample_time_offset:
  "parse_isoformat_time
     [49, 48, 58, 51, 48, 58, 48, 48, 46, 48, 48, 48, 43, 48, 48, 58, 48, 48] =
   Some ((10, 30, 0, 0), Some 0)"
  by (simp add: parse_isoformat_time_def parse_sample_time parse_sample_offset)

lemma parse_sample_date: "parse_date sample_date = Inr sample_instant"
  by (simp add: parse_date_def replace_sample_date fromisoformat_def parse_sample_day
      parse_sample_time_offset days_in_month_def sample_instant_def)

subsection \<open>The branches of \<open>create_embed\<close> on a sparse event\<close>

lemma get_or_dict:
  "absent_or_dict (map_of a (lit k)) \<Longrightarrow>
     (case map_of a (lit k) of None \<Rightarrow> PDict [] | Some v \<Rightarrow> v) = PDict (sub a k)"
  by (auto simp: absent_or_dict_def sub_def split: option.splits pyval.splits)

lemma get_data_sub:
  "absent_or_dict (map_of a (lit ''data'')) \<Longrightarrow>
     get_data (PDict a) k dflt =
       Inr (case map_of (sub a ''data'') k of None \<Rightarrow> dflt | Some v \<Rightarrow> v)"
  by (simp add: get_data_def get_or_dict)

lemma py_str_text_or:
  "py_str (case map_of d (lit k) of None \<Rightarrow> PStr (lit dflt) | Some v \<Rightarrow> v) = text_or dflt d k"
  by (simp add: text_or_def split: option.splits)

lemma text_sub:
  "absent_or_str (map_of d (lit ''text'')) \<Longrightarrow>
    (case map_of d (lit ''text'') of None \<Rightarrow> PStr [] | Some v \<Rightarrow> v) = PStr (text_or [] d ''text'')"
  by (auto simp: absent_or_str_def text_or_def lit_def split: option.splits pyval.splits)

lemma truncated_str:
  "truncated (PStr t) = Inr (PStr (if length t > 1000 then take 1000 t @ lit ''...'' else t))"
  by (simp add: truncated_def)

lemma embed_createCard_sparse:
  assumes "sparse_event a" and "bindE (parse_date date) (set_timestamp env) = Inr ts"
  shows "embed_createCard env (PDict a) (PDict (sub a ''memberCreator'')) date =
     Inr \<lparr>title = 0x1F195 # lit '' New Card Created'',
          description = card_description a,
          color = 0x00ff00, timestamp = ts,
          embed_fields =
            [\<lparr>field_name = lit ''List'',
              field_value = text_or ''Unknown'' (sub (sub a ''data'') ''list'') ''name'',
              field_inline = True\<rparr>,
             by_field ''Creator'' a]\<rparr>"
proof -
  from assms(2) obtain ts0
    where "parse_date date = Inr ts0" and "set_timestamp env ts0 = Inr ts"
    by (auto simp: bindE_eq_Inr)
  with assms(1) show ?thesis
    by (simp add: embed_createCard_def sparse_event_def get_data_sub get_or_dict py_str_text_or
      Embed_def add_field_def emphasized_def by_field_def card_description_def)
qed

lemma embed_deleteCard_sparse:
  assumes "sparse_event a" and "bindE (parse_date date) (set_timestamp env) = Inr ts"
  shows "embed_deleteCard env (PDict a) (PDict (sub a ''memberCreator'')) date =
     Inr \<lparr>title = [0x1F5D1, 0xFE0F] @ lit '' Card Deleted'',
          description = card_description a,
          color = 0xff0000, timestamp = ts,
          embed_fields = [by_field ''Deleted by'' a]\<rparr>"
proof -
  from assms(2) obtain ts0
    where "parse_date date = Inr ts0" and "set_timestamp env ts0 = Inr ts"
    by (auto simp: bindE_eq_Inr)
  with assms(1) show ?thesis
    by (simp add: embed_deleteCard_def sparse_event_def get_data_sub get_or_dict py_str_text_or
      Embed_def add_field_def emphasized_def by_field_def card_description_def)
qed

lemma embed_commentCard_sparse:
  assumes "sparse_event a" and "bindE (parse_date date) (set_timestamp env) = Inr ts"
  shows "embed_commentCard env (PDict a) (PDict (sub a ''memberCreator'')) date =
     Inr \<lparr>title = 0x1F4AC # lit '' New Comment'',
          description = card_description a,
          color = 0x0099ff, timestamp = ts,
          embed_fields =
            [\<lparr>field_name = lit ''Comment'', field_value = comment_of a, field_inline = False\<rparr>,
             by_field ''Comment by'' a]\<rparr>"
proof -
  from assms(2) obtain ts0
    where "parse_date date = Inr ts0" and "set_timestamp env ts0 = Inr ts"
    by (auto simp: bindE_eq_Inr)
  with assms(1) show ?thesis
    by (simp add: embed_commentCard_def sparse_event_def get_data_sub get_or_dict py_str_text_or
      text_sub truncated_str comment_of_def Let_def
      Embed_def add_field_def emphasized_def by_field_def card_description_def)
qed

lemma name_changed_field_dict:
  "name_changed_field emb (PDict old) (PDict c) =
     Inr (emb\<lparr>embed_fields := embed_fields emb @ name_changed old c\<rparr>)"
proof (cases "map_of old (lit ''name'')")
  case None
  then have "lit ''name'' \<notin> fst ` set old"
    by (simp add: map_of_eq_None_iff)
  with None show ?thesis
    by (simp add: name_changed_field_def name_changed_def)
next
  case (Some v)
  then have "lit ''name'' \<in> fst ` set old"
    by (metis map_of_eq_None_iff option.distinct(1))
  with Some show ?thesis
    by (simp add: name_changed_field_def name_changed_def add_field_def)
qed

lemma marker_field_dict:
  "marker_field emb (PDict old) k n v =
     Inr (emb\<lparr>embed_fields := embed_fields emb @ marker old k n v\<rparr>)"
  by (simp add: marker_field_def marker_def add_field_def)

lemma embed_updateCard_sparse:
  assumes "sparse_event a" and "bindE (parse_date date) (set_timestamp env) = Inr ts"
  shows "embed_updateCard env (PDict a) (PDict (sub a ''memberCreator'')) date =
     Inr \<lparr>title = 0x1F4DD # lit '' Card Updated'',
          description = card_description a,
          color = 0xffaa00, timestamp = ts,
          embed_fields =
            name_changed (sub (sub a ''data'') ''old'') (sub (sub a ''data'') ''card'')
            @ marker (sub (sub a ''data'') ''old'') ''desc'' ''Description Updated''
                ''Description was modified''
            @ marker (sub (sub a ''data'') ''old'') ''pos'' ''Position Changed'' ''Card was moved''
            @ [by_field ''Updated by'' a]\<rparr>"
proof -
  from assms(2) obtain ts0
    where "parse_date date = Inr ts0" and "set_timestamp env ts0 = Inr ts"
    by (auto simp: bindE_eq_Inr)
  with assms(1) show ?thesis
    by (simp add: embed_updateCard_def sparse_event_def get_data_sub get_or_dict py_str_text_or
      name_changed_field_dict marker_field_dict
      Embed_def add_field_def emphasized_def by_field_def card_description_def)
qed

lemma embed_other_sparse:
  assumes "absent_or_dict (map_of a (lit ''memberCreator''))"
    and "bindE (parse_date date) (set_timestamp env) = Inr ts"
  shows "embed_other env action_type (PDict (sub a ''memberCreator'')) date =
     Inr \<lparr>title = 0x1F504 # lit '' Trello Update'',
          description = lit ''Action: '' @ py_str action_type,
          color = 0x666666, timestamp = ts,
          embed_fields = [by_field ''User'' a]\<rparr>"
proof -
  from assms(2) obtain ts0
    where "parse_date date = Inr ts0" and "set_timestamp env ts0 = Inr ts"
    by (auto simp: bindE_eq_Inr)
  with assms(1) show ?thesis
    by (simp add: embed_other_def py_str_text_or Embed_def add_field_def by_field_def)
qed

subsection \<open>The chain of \<open>create_embed\<close>\<close>

lemma create_embed_dict:
  "create_embed env (PDict a) =
     (case classify (type_of a) of
        CardCreated \<Rightarrow> embed_createCard env (PDict a) (member_of a) (date_of a)
      | CardUpdated \<Rightarrow> embed_updateCard env (PDict a) (member_of a) (date_of a)
      | CardDeleted \<Rightarrow> embed_deleteCard env (PDict a) (member_of a) (date_of a)
      | CardCommented \<Rightarrow> embed_commentCard env (PDict a) (member_of a) (date_of a)
      | Unknown \<Rightarrow> embed_other env (type_of a) (member_of a) (date_of a))"
  by (simp add: create_embed_def classify_def date_of_def type_of_def member_of_def)

lemma member_of_sparse:
  "absent_or_dict (map_of a (lit ''memberCreator'')) \<Longrightarrow> member_of a = PDict (sub a ''memberCreator'')"
  by (simp add: member_of_def get_or_dict)

lemma text_or_absent: "map_of d (lit k) = None \<Longrightarrow> text_or dflt d k = lit dflt"
  by (simp add: text_or_def)

lemma embed_needs_date:
  "embed_createCard env action member date = Inr e \<Longrightarrow> \<exists>ts. parse_date date = Inr ts"
  "embed_updateCard env action member date = Inr e \<Longrightarrow> \<exists>ts. parse_date date = Inr ts"
  "embed_deleteCard env action member date = Inr e \<Longrightarrow> \<exists>ts. parse_date date = Inr ts"
  "embed_commentCard env action member date = Inr e \<Longrightarrow> \<exists>ts. parse_date date = Inr ts"
  "embed_other env action_type member date = Inr e \<Longrightarrow> \<exists>ts. parse_date date = Inr ts"
  by (auto simp: embed_createCard_def embed_updateCard_def embed_deleteCard_def
      embed_commentCard_def embed_other_def bindE_eq_Inr)

lemma create_embed_needs_date:
  "create_embed env (PDict a) = Inr e \<Longrightarrow> \<exists>ts. parse_date (date_of a) = Inr ts"
  by (auto simp: create_embed_dict dest: embed_needs_date split: EventKind.splits)

lemma actionable_iff_classified:
  "action_type \<in> set actionable \<longleftrightarrow> classify action_type \<noteq> Unknown"
  by (simp add: actionable_def classify_def)

subsection \<open>The sample inputs\<close>

lemma sample_env_sel:
  "TRELLO_WEBHOOK_SECRET (sample_env secret ch) = secret" "get_channel (sample_env secret ch) = ch"
  by (simp_all add: sample_env_def)

lemma map_of_sample:
  "map_of (typed t items) (lit k) = (if k = ''type'' then Some (PStr (lit t)) else map_of items (lit k))"
  "map_of (dated items) (lit k) = (if k = ''date'' then Some sample_date else map_of items (lit k))"
  by (simp_all add: typed_def dated_def)

lemma sub_simps:
  "sub [] k = []"
  "sub ((lit k', PDict d) # items) k = (if k' = k then d else sub items k)"
  "sub (typed t items) k = (if k = ''type'' then [] else sub items k)"
  "sub (dated items) k = (if k = ''date'' then [] else sub items k)"
  by (simp_all add: sub_def typed_def dated_def sample_date_def)

lemma text_or_simps:
  "text_or dflt [] k = lit dflt"
  "text_or dflt ((lit k', v) # items) k = (if k' = k then py_str v else text_or dflt items k)"
  by (simp_all add: text_or_def)

lemma absent_or_simps:
  "absent_or_dict None" "absent_or_dict (Some (PDict d))"
  "absent_or_str None" "absent_or_str (Some (PStr s))"
  by (simp_all add: absent_or_dict_def absent_or_str_def)

lemma sample_simps:
  "type_of (typed t items) = PStr (lit t)"
  "date_of (typed t items) = date_of items"
  "date_of (dated items) = sample_date"
  "type_of (dated items) = type_of items"
  by (simp_all add: type_of_def date_of_def map_of_sample)

lemma set_timestamp_aware: "tzinfo ts \<noteq> None \<Longrightarrow> set_timestamp env ts = Inr ts"
  by (auto simp: set_timestamp_def)

lemma timestamp_of_aware:
  "parse_date (date_of a) = Inr ts \<Longrightarrow> tzinfo ts \<noteq> None \<Longrightarrow> timestamp_of env a = Inr ts"
  by (simp add: timestamp_of_def set_timestamp_aware)

lemma set_timestamp_sample: "set_timestamp env sample_instant = Inr sample_instant"
  by (simp add: set_timestamp_def sample_instant_def)

text \<open>
  On the sample host the constructor gives a datetime without offset the offset zero, and
  raises on the first day of the calendar.
\<close>

lemma Embed_without_offset:
  "Embed (sample_env secret ch) t d c (sample_instant\<lparr>tzinfo := None\<rparr>) =
     Inr \<lparr>title = t, description = d, color = c, timestamp = sample_instant,
          embed_fields = []\<rparr>"
  "Embed (sample_env secret ch) t d c
     \<lparr>year = 1, month = 1, day = 1, hour = 0, minute = 0, second = 0, microsecond = 0,
      tzinfo = None\<rparr> = Inl ValueError"
  by (simp_all add: Embed_def set_timestamp_def sample_env_def utc_host_def sample_instant_def)

lemma sparse_createCard_facts:
  "sparse_event sparse_createCard"
  "sparse_event (dated sparse_createCard)"
  "classify (type_of (dated sparse_createCard)) = CardCreated"
  "timestamp_of env (dated sparse_createCard) = Inr sample_instant"
  "map_of (sub (sub (dated sparse_createCard) ''data'') k) n = None"
  "map_of (sub (dated sparse_createCard) ''memberCreator'') n = None"
  by (simp_all add: sparse_createCard_def sparse_event_def map_of_sample sub_simps
      absent_or_simps sample_simps classify_def parse_sample_date
      timestamp_of_def set_timestamp_sample)

lemma comment_event_facts:
  "sparse_event (comment_event t)"
  "classify (type_of (comment_event t)) = CardCommented"
  "timestamp_of env (comment_event t) = Inr sample_instant"
  "map_of (sub (comment_event t) ''data'') (lit ''text'') = Some (PStr t)"
  by (simp_all add: comment_event_def sparse_event_def map_of_sample sub_simps
      absent_or_simps sample_simps classify_def parse_sample_date
      timestamp_of_def set_timestamp_sample)

lemma moveList_facts:
  "classify (type_of moveList) = Unknown"
  "absent_or_dict (map_of moveList (lit ''memberCreator''))"
  "timestamp_of env moveList = Inr sample_instant"
  by (simp_all add: moveList_def map_of_sample absent_or_simps sample_simps classify_def
      parse_sample_date
      timestamp_of_def set_timestamp_sample)

lemma moveList_text:
  "py_str (type_of moveList) = lit ''moveList''"
  "by_field n moveList = \<lparr>field_name = lit n, field_value = lit ''Ann'', field_inline = True\<rparr>"
  by (simp_all add: moveList_def sample_simps by_field_def sub_simps text_or_simps)

lemma sprint_plan_facts:
  "sparse_event sprint_plan"
  "classify (type_of sprint_plan) = CardCreated"
  "timestamp_of env sprint_plan = Inr sample_instant"
  by (simp_all add: sprint_plan_def sparse_event_def map_of_sample sub_simps
      absent_or_simps sample_simps classify_def parse_sample_date
      timestamp_of_def set_timestamp_sample)

lemma sprint_plan_text:
  "card_description sprint_plan = lit ''**'' @ lit ''Sprint Plan'' @ lit ''**''"
  "text_or ''Unknown'' (sub (sub sprint_plan ''data'') ''list'') ''name'' = lit ''Backlog''"
  "by_field n sprint_plan = \<lparr>field_name = lit n, field_value = lit ''Ann'', field_inline = True\<rparr>"
  by (simp_all add: sprint_plan_def card_description_def by_field_def sub_simps text_or_simps)

lemma lit_append: "lit (xs @ ys) = lit xs @ lit ys"
  by (simp add: lit_def)

lemma create_embed_sprint_plan: "create_embed env (PDict sprint_plan) = Inr sprint_plan_embed"
  by (simp add: create_embed_dict sprint_plan_facts(2) member_of_sparse
      sprint_plan_facts(1) [unfolded sparse_event_def]
      embed_createCard_sparse
        [OF sprint_plan_facts(1) sprint_plan_facts(3) [unfolded timestamp_of_def]]
      sprint_plan_text sprint_plan_embed_def lit_append [symmetric])

subsection \<open>The endpoint\<close>

lemma verify_unconfigured:
  "verify_webhook_signature (sample_env None ch) request = Inr True"
  by (simp add: verify_webhook_signature_def sample_env_def)

lemma verify_wrong_signature:
  "verify_webhook_signature (sample_env (Some (lit ''s3cret'')) ch)
     (signed_request (Some (lit ''abc'')) body j) = Inr False"
proof -
  have ascii: "is_ascii (lit ''abc'')"
    by (simp add: is_ascii_def lit_Cons lit_Nil)
  have differs: "lit ''abc'' \<noteq> hexdigest (hmac_sha1 key b)" for key b
    using length_expected_signature [of key b] by (auto dest: arg_cong [where f = length])
  have "verify_webhook_signature (sample_env (Some (lit ''s3cret'')) ch)
          (signed_request (Some (lit ''abc'')) body j) =
        Inr (lit ''abc'' = hexdigest (hmac_sha1 [115, 51, 99, 114, 101, 116]
               (read (signed_request (Some (lit ''abc'')) body j))))"
    by (rule verify_webhook_signature_ascii [OF _ _ py_encode_s3cret _ ascii])
       (simp_all add: sample_env_def signed_request_def)
  with differs show ?thesis by simp
qed

lemma webhook_body_action: "py_get (webhook_body a) (lit ''action'') (PDict []) = Inr (PDict a)"
  by (simp add: webhook_body_def)

lemma process_trello_event_dict:
  "py_get data (lit ''action'') (PDict []) = Inr (PDict a) \<Longrightarrow>
     process_trello_event env data =
       (if classify (type_of a) \<noteq> Unknown then send_discord_message env (PDict a) else [])"
  by (simp add: process_trello_event_def type_of_def actionable_iff_classified)

lemma handle_webhook_accepted:
  "verify_webhook_signature env request = Inr True \<Longrightarrow> json request = Inr data \<Longrightarrow>
     handle_webhook env request =
       (\<lparr>status = 200, response_text = lit ''OK''\<rparr>, Call_json # process_trello_event env data)"
  by (simp add: handle_webhook_def Response_def)

section \<open>The signature check\<close>

text \<open>
  Claim C3. If no webhook secret is configured, the check returns true for every body
  and every signature header, present or absent; if a secret is configured and the
  request has no signature header, it returns false whatever the body is. The request
  is arbitrary in both parts, and with it the body and the other headers.
\<close>

theorem verify_bypass_and_missing_header:
  "(\<not> configured env \<longrightarrow> verify_webhook_signature env request = Inr True)
   \<and> (configured env \<and> headers request (lit ''X-Trello-Webhook'') = None
        \<longrightarrow> verify_webhook_signature env request = Inr False)"
  by (auto simp: configured_def verify_webhook_signature_def split: option.splits)

theorem verify_bypass_and_missing_header_witness:
  "\<not> configured (sample_env None None)
   \<and> verify_webhook_signature (sample_env None None)
        (signed_request (Some (lit ''abc'')) [1, 2] (Inl JSONDecodeError)) = Inr True
   \<and> configured (sample_env (Some (lit ''s3cret'')) None)
   \<and> headers (signed_request None [1, 2] (Inl JSONDecodeError)) (lit ''X-Trello-Webhook'') = None
   \<and> verify_webhook_signature (sample_env (Some (lit ''s3cret'')) None)
        (signed_request None [1, 2] (Inl JSONDecodeError)) = Inr False"
  using verify_bypass_and_missing_header [of "sample_env None None"
          "signed_request (Some (lit ''abc'')) [1, 2] (Inl JSONDecodeError)"]
        verify_bypass_and_missing_header [of "sample_env (Some (lit ''s3cret'')) None"
          "signed_request None [1, 2] (Inl JSONDecodeError)"]
  by (simp add: configured_def sample_env_def signed_request_def)

text \<open>
  Claim C2 says that with a non-empty secret the check returns true exactly when the
  signature is the lowercase hexadecimal HMAC-SHA1 of the body under the secret, and
  false for any other signature. The handler passes the header, a string, to
  \<^verbatim>\<open>hmac.compare_digest\<close>, which compares strings of ASCII characters only. For the
  secret \<^verbatim>\<open>s3cret\<close>, the body \<^verbatim>\<open>{}\<close> and a signature header that holds the one
  character U+00E9, the check does not return false: it raises \<^verbatim>\<open>TypeError\<close>, and the
  endpoint answers 500 where a wrong signature gets 401.
\<close>

theorem non_ascii_signature_raises:
  "verify_webhook_signature (sample_env (Some (lit ''s3cret'')) None)
     (signed_request (Some [0xE9]) [123, 125] (Inr (PDict []))) = Inl TypeError
   \<and> handle_webhook (sample_env (Some (lit ''s3cret'')) None)
        (signed_request (Some [0xE9]) [123, 125] (Inr (PDict [])))
      = (\<lparr>status = 500, response_text = lit ''Internal Server Error''\<rparr>,
         [Log (Error_handling_webhook TypeError)])"
proof -
  have "verify_webhook_signature (sample_env (Some (lit ''s3cret'')) None)
     (signed_request (Some [0xE9]) [123, 125] (Inr (PDict []))) = Inl TypeError"
    by (simp add: verify_webhook_signature_def sample_env_def signed_request_def
        py_encode_s3cret compare_digest_def is_ascii_def)
  then show ?thesis
    by (simp add: handle_webhook_def Response_def)
qed

text \<open>
  What holds of the check on every signature of ASCII characters (the hexadecimal
  digest is one): with a non-empty secret that UTF-8 can encode, the check returns
  true exactly when the signature is the hexadecimal HMAC-SHA1 of the raw body under
  the encoded secret, and false otherwise.
\<close>

theorem verify_accepts_exactly_the_hmac:
  assumes "TRELLO_WEBHOOK_SECRET env = Some secret" and "secret \<noteq> []"
    and "py_encode secret = Inr key"
    and "headers request (lit ''X-Trello-Webhook'') = Some sig" and "is_ascii sig"
  shows "verify_webhook_signature env request =
           Inr (sig = hexdigest (hmac_sha1 key (read request)))"
  using assms by (rule verify_webhook_signature_ascii)

theorem verify_accepts_exactly_the_hmac_witness:
  "verify_webhook_signature (sample_env (Some (lit ''s3cret'')) None)
     (signed_request (Some (hexdigest (hmac_sha1 [115, 51, 99, 114, 101, 116] [123, 125])))
        [123, 125] (Inr (PDict []))) = Inr True"
  using verify_accepts_exactly_the_hmac [of "sample_env (Some (lit ''s3cret'')) None"
      "lit ''s3cret''" "[115, 51, 99, 114, 101, 116]"
      "signed_request (Some (hexdigest (hmac_sha1 [115, 51, 99, 114, 101, 116] [123, 125])))
        [123, 125] (Inr (PDict []))"
      "hexdigest (hmac_sha1 [115, 51, 99, 114, 101, 116] [123, 125])"]
  by (simp add: sample_env_def signed_request_def py_encode_s3cret is_ascii_hexdigest)

section \<open>The endpoint\<close>

text \<open>
  Claim C4. When the signature check fails, that is, returns false, the endpoint
  answers 401 and does nothing else: the request leaves no trace, so the body is not
  decoded, no embed is built and the channel is not called.
\<close>

theorem failed_verification_is_401:
  "verify_webhook_signature env request = Inr False \<Longrightarrow>
     handle_webhook env request = (\<lparr>status = 401, response_text = lit ''Unauthorized''\<rparr>, [])"
  by (simp add: handle_webhook_def Response_def)

theorem failed_verification_is_401_witness:
  "verify_webhook_signature (sample_env (Some (lit ''s3cret'')) (Some working_channel))
     (signed_request (Some (lit ''abc'')) [] (Inr (webhook_body sprint_plan))) = Inr False
   \<and> handle_webhook (sample_env (Some (lit ''s3cret'')) (Some working_channel))
        (signed_request (Some (lit ''abc'')) [] (Inr (webhook_body sprint_plan)))
      = (\<lparr>status = 401, response_text = lit ''Unauthorized''\<rparr>, [])"
  using failed_verification_is_401 [OF verify_wrong_signature] verify_wrong_signature
  by simp

text \<open>
  Claim C5. When the signature check passes and the body is not JSON, so that
  \<^verbatim>\<open>request.json()\<close> raises, the endpoint answers 500; it has called the decoder and
  logged the exception, and nothing else: the channel is not called.
\<close>

theorem undecodable_body_is_500:
  "verify_webhook_signature env request = Inr True \<Longrightarrow> json request = Inl e \<Longrightarrow>
     handle_webhook env request =
       (\<lparr>status = 500, response_text = lit ''Internal Server Error''\<rparr>,
        [Call_json, Log (Error_handling_webhook e)])"
  by (simp add: handle_webhook_def Response_def)

theorem undecodable_body_is_500_witness:
  "verify_webhook_signature (sample_env None (Some working_channel))
     (signed_request None [123] (Inl JSONDecodeError)) = Inr True
   \<and> json (signed_request None [123] (Inl JSONDecodeError)) = Inl JSONDecodeError
   \<and> handle_webhook (sample_env None (Some working_channel))
        (signed_request None [123] (Inl JSONDecodeError))
      = (\<lparr>status = 500, response_text = lit ''Internal Server Error''\<rparr>,
         [Call_json, Log (Error_handling_webhook JSONDecodeError)])"
proof -
  have decode: "json (signed_request None [123] (Inl JSONDecodeError)) = Inl JSONDecodeError"
    by (simp add: signed_request_def)
  from undecodable_body_is_500 [OF verify_unconfigured decode] verify_unconfigured decode
  show ?thesis by blast
qed

text \<open>
  Claim C6. Classification is a total function of the action type: the four card
  types map to their kinds, and every other value, \<^verbatim>\<open>None\<close> for an absent type included,
  maps to \<open>Unknown\<close>. On a decoded body whose action is a dict with items \<open>a\<close>, the
  handler attempts a delivery (it calls \<open>send_discord_message\<close>, whose first step is to
  look the channel up) exactly when the kind is not \<open>Unknown\<close>, and otherwise does
  nothing at all; and the branch \<open>create_embed\<close> takes is the one of the kind.
\<close>

theorem classification_decides_delivery:
  assumes "py_get data (lit ''action'') (PDict []) = Inr (PDict a)"
  shows "classify (PStr (lit ''createCard'')) = CardCreated
       \<and> classify (PStr (lit ''updateCard'')) = CardUpdated
       \<and> classify (PStr (lit ''deleteCard'')) = CardDeleted
       \<and> classify (PStr (lit ''commentCard'')) = CardCommented
       \<and> classify PNone = Unknown
       \<and> (type_of a \<notin> set actionable \<longrightarrow> classify (type_of a) = Unknown)
       \<and> (classify (type_of a) \<noteq> Unknown \<longrightarrow>
            process_trello_event env data = send_discord_message env (PDict a)
            \<and> hd (process_trello_event env data) = Call_get_channel)
       \<and> (classify (type_of a) = Unknown \<longrightarrow> process_trello_event env data = [])
       \<and> create_embed env (PDict a) =
           (case classify (type_of a) of
              CardCreated \<Rightarrow> embed_createCard env (PDict a) (member_of a) (date_of a)
            | CardUpdated \<Rightarrow> embed_updateCard env (PDict a) (member_of a) (date_of a)
            | CardDeleted \<Rightarrow> embed_deleteCard env (PDict a) (member_of a) (date_of a)
            | CardCommented \<Rightarrow> embed_commentCard env (PDict a) (member_of a) (date_of a)
            | Unknown \<Rightarrow> embed_other env (type_of a) (member_of a) (date_of a))"
proof -
  have "hd (send_discord_message env (PDict a)) = Call_get_channel"
    by (simp add: send_discord_message_def)
  with assms show ?thesis
    by (simp add: process_trello_event_dict actionable_iff_classified create_embed_dict)
       (simp add: classify_def)
qed

theorem classification_decides_delivery_witness:
  "process_trello_event (sample_env None (Some working_channel)) (webhook_body sprint_plan)
     = [Call_get_channel, Call_create_embed, Call_send sprint_plan_embed]
   \<and> process_trello_event (sample_env None (Some working_channel)) (webhook_body moveList) = []"
  using classification_decides_delivery [OF webhook_body_action,
          of sprint_plan "sample_env None (Some working_channel)"]
        classification_decides_delivery [OF webhook_body_action,
          of moveList "sample_env None (Some working_channel)"]
  by (simp add: sprint_plan_facts moveList_facts send_discord_message_def sample_env_def
      create_embed_sprint_plan working_channel_def)

text \<open>
  Claim C9. When the signature check passes and the body decodes, the endpoint
  answers 200 whatever becomes of the delivery: if the channel is missing, that is
  logged; if \<^verbatim>\<open>channel.send\<close> raises, the exception is logged; the response is the same.
\<close>

theorem accepted_request_is_200:
  assumes "verify_webhook_signature env request = Inr True" and "json request = Inr data"
  shows "fst (handle_webhook env request) = \<lparr>status = 200, response_text = lit ''OK''\<rparr>
       \<and> (get_channel env = None \<and> Call_get_channel \<in> set (snd (handle_webhook env request))
            \<longrightarrow> Log Channel_not_found \<in> set (snd (handle_webhook env request)))
       \<and> (\<forall>send emb e. get_channel env = Some send
              \<and> Call_send emb \<in> set (snd (handle_webhook env request)) \<and> send emb = Some e
            \<longrightarrow> Log (Error_sending_Discord_message e) \<in> set (snd (handle_webhook env request)))"
  using assms
  by (auto simp: handle_webhook_accepted process_trello_event_def send_discord_message_def
           split: sum.splits option.splits if_splits)

theorem accepted_request_is_200_witness:
  "handle_webhook (sample_env None (Some failing_channel))
     (signed_request None [] (Inr (webhook_body sprint_plan)))
   = (\<lparr>status = 200, response_text = lit ''OK''\<rparr>,
      [Call_json, Call_get_channel, Call_create_embed, Call_send sprint_plan_embed,
       Log (Error_sending_Discord_message DiscordException)])
   \<and> handle_webhook (sample_env None None)
       (signed_request None [] (Inr (webhook_body sprint_plan)))
     = (\<lparr>status = 200, response_text = lit ''OK''\<rparr>,
        [Call_json, Call_get_channel, Log Channel_not_found])"
proof -
  have decode: "json (signed_request None [] (Inr (webhook_body sprint_plan)))
      = Inr (webhook_body sprint_plan)"
    by (simp add: signed_request_def)
  have trace:
    "snd (handle_webhook (sample_env None ch) (signed_request None [] (Inr (webhook_body sprint_plan))))
       = Call_json # send_discord_message (sample_env None ch) (PDict sprint_plan)" for ch
    by (simp add: handle_webhook_accepted [OF verify_unconfigured decode]
        process_trello_event_dict [OF webhook_body_action] sprint_plan_facts)
  from accepted_request_is_200 [OF verify_unconfigured decode, of "Some failing_channel"]
       accepted_request_is_200 [OF verify_unconfigured decode, of None]
  show ?thesis
    by (simp add: prod_eq_iff trace send_discord_message_def sample_env_sel
        create_embed_sprint_plan failing_channel_def)
qed

section \<open>The formatter\<close>

text \<open>
  Claim C1 says that \<open>create_embed\<close> never raises on an event of one of the four
  kinds and puts the default in place of every absent part, in particular on the action
  \<^verbatim>\<open>{type: "createCard", data: {}}\<close>. On that action the handler raises: the date is
  absent, its default is the empty string, and \<^verbatim>\<open>datetime.fromisoformat\<close> rejects it.
\<close>

theorem sparse_createCard_without_date_raises:
  "create_embed (sample_env None None) (PDict sparse_createCard) = Inl ValueError"
  by (simp add: create_embed_def sparse_createCard_def typed_def embed_createCard_def
      get_data_def parse_date_empty)

text \<open>
  Claim C1 as amended: on every sparse event of one of the four kinds whose date parses
  and is accepted as a timestamp, \<open>create_embed\<close> returns an embed. A date with an
  offset is always accepted, and is the timestamp (\<open>timestamp_of_aware\<close>); a date
  without one is first placed in the zone of the host, which fails at the ends of the
  calendar. The description of the embed is the name of the card in emphasis, and its
  last field names the creator; a card created has the name of the list before that,
  and a comment its text, cut as the specification says. Where the name of the card, of
  the list or of the creator is absent the text is \<^verbatim>\<open>Unknown\<close>, and an absent comment
  is the empty text. The fields an update has before the last one are not part of the
  statement.
\<close>

theorem sparse_event_is_formatted:
  assumes "sparse_event a" and "classify (type_of a) \<noteq> Unknown"
    and "timestamp_of env a = Inr ts"
  shows "\<exists>e. create_embed env (PDict a) = Inr e
       \<and> description e = card_description a \<and> timestamp e = ts
       \<and> last (embed_fields e) =
           by_field (case classify (type_of a) of CardCreated \<Rightarrow> ''Creator''
                     | CardUpdated \<Rightarrow> ''Updated by'' | CardDeleted \<Rightarrow> ''Deleted by''
                     | _ \<Rightarrow> ''Comment by'') a
       \<and> (classify (type_of a) = CardCreated \<longrightarrow>
            butlast (embed_fields e) =
              [\<lparr>field_name = lit ''List'',
                field_value = text_or ''Unknown'' (sub (sub a ''data'') ''list'') ''name'',
                field_inline = True\<rparr>])
       \<and> (classify (type_of a) = CardDeleted \<longrightarrow> butlast (embed_fields e) = [])
       \<and> (classify (type_of a) = CardCommented \<longrightarrow>
            butlast (embed_fields e) =
              [\<lparr>field_name = lit ''Comment'', field_value = comment_of a, field_inline = False\<rparr>])
       \<and> (map_of (sub (sub a ''data'') ''card'') (lit ''name'') = None \<longrightarrow>
            description e = lit ''**'' @ lit ''Unknown'' @ lit ''**'')
       \<and> (map_of (sub a ''memberCreator'') (lit ''fullName'') = None \<longrightarrow>
            field_value (last (embed_fields e)) = lit ''Unknown'')
       \<and> (classify (type_of a) = CardCreated
            \<and> map_of (sub (sub a ''data'') ''list'') (lit ''name'') = None \<longrightarrow>
            field_value (hd (embed_fields e)) = lit ''Unknown'')
       \<and> (classify (type_of a) = CardCommented
            \<and> map_of (sub a ''data'') (lit ''text'') = None \<longrightarrow>
            field_value (hd (embed_fields e)) = [])"
proof -
  have unknown: "card_description a = lit ''**'' @ lit ''Unknown'' @ lit ''**''"
    if "map_of (sub (sub a ''data'') ''card'') (lit ''name'') = None"
    using that by (simp add: card_description_def text_or_absent)
  have nobody: "field_value (by_field n a) = lit ''Unknown''"
    if "map_of (sub a ''memberCreator'') (lit ''fullName'') = None" for n
    using that by (simp add: by_field_def text_or_absent)
  from assms(1) have member: "member_of a = PDict (sub a ''memberCreator'')"
    by (simp add: member_of_sparse sparse_event_def)
  show ?thesis
  proof (cases "classify (type_of a)")
    case CardCreated
    with assms unknown nobody show ?thesis
      by (simp add: timestamp_of_def create_embed_dict member embed_createCard_sparse text_or_absent)
  next
    case CardUpdated
    with assms unknown nobody show ?thesis
      by (simp add: timestamp_of_def create_embed_dict member embed_updateCard_sparse)
  next
    case CardDeleted
    with assms unknown nobody show ?thesis
      by (simp add: timestamp_of_def create_embed_dict member embed_deleteCard_sparse)
  next
    case CardCommented
    with assms unknown nobody show ?thesis
      by (simp add: timestamp_of_def create_embed_dict member embed_commentCard_sparse
          comment_of_def text_or_absent lit_Nil)
  next
    case Unknown
    with assms show ?thesis by simp
  qed
qed

theorem sparse_event_is_formatted_witness:
  "sparse_event (dated sparse_createCard)
   \<and> classify (type_of (dated sparse_createCard)) \<noteq> Unknown
   \<and> timestamp_of (sample_env None None) (dated sparse_createCard) = Inr sample_instant
   \<and> (\<exists>e. create_embed (sample_env None None) (PDict (dated sparse_createCard)) = Inr e
          \<and> description e = lit ''**'' @ lit ''Unknown'' @ lit ''**''
          \<and> field_value (hd (embed_fields e)) = lit ''Unknown''
          \<and> field_value (last (embed_fields e)) = lit ''Unknown'')"
proof -
  have kind: "classify (type_of (dated sparse_createCard)) \<noteq> Unknown"
    by (simp add: sparse_createCard_facts)
  from sparse_event_is_formatted [of "dated sparse_createCard" "sample_env None None" sample_instant,
      OF sparse_createCard_facts(2) kind sparse_createCard_facts(4)]
    sparse_createCard_facts kind
  show ?thesis by auto
qed

text \<open>
  Claim C7. For a comment event whose date parses and is accepted as a timestamp (as
  every date with an offset is), the field \<^verbatim>\<open>Comment\<close> (the first field of the embed)
  holds the text unchanged when it has at most 1000 characters, and its first 1000
  characters followed by three dots when it is longer; the value then has 1003
  characters, as for a text of 1500.
\<close>

theorem comment_is_truncated:
  assumes "sparse_event a" and "classify (type_of a) = CardCommented"
    and "timestamp_of env a = Inr ts"
    and "map_of (sub a ''data'') (lit ''text'') = Some (PStr t)"
  shows "\<exists>e. create_embed env (PDict a) = Inr e
       \<and> hd (embed_fields e) =
           \<lparr>field_name = lit ''Comment'',
            field_value = (if length t \<le> 1000 then t else take 1000 t @ lit ''...''),
            field_inline = False\<rparr>
       \<and> (1000 < length t \<longrightarrow> length (field_value (hd (embed_fields e))) = 1003)"
  using assms
  by (auto simp: timestamp_of_def create_embed_dict member_of_sparse sparse_event_def
      embed_commentCard_sparse comment_of_def text_or_def)

theorem comment_is_truncated_witness:
  "(\<exists>e. create_embed (sample_env None None) (PDict (comment_event (replicate 1500 97))) = Inr e
        \<and> field_value (hd (embed_fields e)) = replicate 1000 97 @ lit ''...''
        \<and> length (field_value (hd (embed_fields e))) = 1003)
   \<and> (\<exists>e. create_embed (sample_env None None) (PDict (comment_event (replicate 1000 97))) = Inr e
        \<and> field_value (hd (embed_fields e)) = replicate 1000 97)"
  using comment_is_truncated [of "comment_event (replicate 1500 97)" "sample_env None None"
      sample_instant "replicate 1500 97", OF comment_event_facts]
    comment_is_truncated [of "comment_event (replicate 1000 97)" "sample_env None None"
      sample_instant "replicate 1000 97", OF comment_event_facts]
  by auto

text \<open>
  Claim C8 says that the message for an event of kind \<open>Unknown\<close> has the title
  \<^verbatim>\<open>Generic Update\<close>. The handler writes another title: the emoji U+1F504 and
  \<^verbatim>\<open>Trello Update\<close>. And where the date is absent there is no message: the handler
  raises, as for the other kinds.
\<close>

theorem unknown_title_is_not_generic_update:
  "classify (type_of moveList) = Unknown
   \<and> map_sum id title (create_embed (sample_env None None) (PDict moveList))
       = Inr (0x1F504 # lit '' Trello Update'')
   \<and> 0x1F504 # lit '' Trello Update'' \<noteq> lit ''Generic Update''
   \<and> create_embed (sample_env None None) (PDict (typed ''moveList'' [])) = Inl ValueError"
proof (intro conjI)
  show "classify (type_of moveList) = Unknown"
    by (rule moveList_facts(1))
  show "map_sum id title (create_embed (sample_env None None) (PDict moveList))
       = Inr (0x1F504 # lit '' Trello Update'')"
    by (simp add: moveList_facts [unfolded timestamp_of_def] create_embed_dict member_of_sparse
        embed_other_sparse)
  show "0x1F504 # lit '' Trello Update'' \<noteq> lit ''Generic Update''"
    by (simp add: lit_Cons)
  show "create_embed (sample_env None None) (PDict (typed ''moveList'' [])) = Inl ValueError"
    by (simp add: create_embed_def typed_def embed_other_def parse_date_empty)
qed

text \<open>
  Claim C8 as amended: for every action of kind \<open>Unknown\<close> whose creator is absent or
  a record and whose date parses and is accepted as a timestamp (as every date with an
  offset is), the message has the title U+1F504 \<^verbatim>\<open>Trello Update\<close>, the description
  \<^verbatim>\<open>Action: \<close> followed by the text of the action type (the tag itself when it is a
  string, \<^verbatim>\<open>None\<close> when it is absent), the gray colour \<open>0x666666\<close>, that timestamp
  and one field, \<^verbatim>\<open>User\<close>, with the name of the creator.
\<close>

theorem unknown_event_is_formatted:
  assumes "classify (type_of a) = Unknown"
    and "absent_or_dict (map_of a (lit ''memberCreator''))"
    and "timestamp_of env a = Inr ts"
  shows "create_embed env (PDict a) =
           Inr \<lparr>title = 0x1F504 # lit '' Trello Update'',
                description = lit ''Action: '' @ py_str (type_of a),
                color = 0x666666, timestamp = ts,
                embed_fields = [by_field ''User'' a]\<rparr>
       \<and> (\<forall>s. type_of a = PStr s \<longrightarrow> py_str (type_of a) = s)
       \<and> (map_of a (lit ''type'') = None \<longrightarrow> py_str (type_of a) = lit ''None'')"
  using assms
  by (simp add: timestamp_of_def create_embed_dict member_of_sparse embed_other_sparse)
     (simp add: type_of_def)

theorem unknown_event_is_formatted_witness:
  "create_embed (sample_env None None) (PDict moveList) =
     Inr \<lparr>title = 0x1F504 # lit '' Trello Update'',
          description = lit ''Action: '' @ lit ''moveList'',
          color = 0x666666, timestamp = sample_instant,
          embed_fields =
            [\<lparr>field_name = lit ''User'', field_value = lit ''Ann'', field_inline = True\<rparr>]\<rparr>"
  using unknown_event_is_formatted [of moveList "sample_env None None" sample_instant,
      OF moveList_facts]
  by (simp add: moveList_text)

text \<open>
  Claim C10. When the signature check passes, the body decodes to a dict whose action
  is a dict of one of the four kinds, and the date of the action is absent or does not
  parse, the endpoint still answers 200 and nothing is sent to the channel:
  \<open>create_embed\<close> raises, and where the channel exists the trace ends with the line
  \<open>send_discord_message\<close> logs for the exception it caught.
\<close>

theorem unparsable_date_is_dropped:
  assumes "verify_webhook_signature env request = Inr True" and "json request = Inr data"
    and "py_get data (lit ''action'') (PDict []) = Inr (PDict a)"
    and "classify (type_of a) \<noteq> Unknown"
    and "map_of a (lit ''date'') = None \<or> isl (parse_date (date_of a))"
  shows "fst (handle_webhook env request) = \<lparr>status = 200, response_text = lit ''OK''\<rparr>
       \<and> (\<forall>emb. Call_send emb \<notin> set (snd (handle_webhook env request)))
       \<and> (\<exists>err. create_embed env (PDict a) = Inl err
             \<and> (\<forall>send. get_channel env = Some send \<longrightarrow>
                  snd (handle_webhook env request) =
                    [Call_json, Call_get_channel, Call_create_embed,
                     Log (Error_sending_Discord_message err)]))"
proof -
  from assms(5) have "isl (parse_date (date_of a))"
    by (auto simp: date_of_def parse_date_empty)
  then have "create_embed env (PDict a) \<noteq> Inr e" for e
    using create_embed_needs_date [of env a e] by auto
  then obtain err where err: "create_embed env (PDict a) = Inl err"
    by (cases "create_embed env (PDict a)") auto
  from assms(1-4) err show ?thesis
    by (auto simp: handle_webhook_accepted process_trello_event_dict send_discord_message_def
        split: option.splits)
qed

theorem unparsable_date_is_dropped_witness:
  "map_of sparse_createCard (lit ''date'') = None
   \<and> handle_webhook (sample_env None (Some working_channel))
       (signed_request None [] (Inr (webhook_body sparse_createCard)))
     = (\<lparr>status = 200, response_text = lit ''OK''\<rparr>,
        [Call_json, Call_get_channel, Call_create_embed,
         Log (Error_sending_Discord_message ValueError)])"
proof -
  have decode: "json (signed_request None [] (Inr (webhook_body sparse_createCard)))
      = Inr (webhook_body sparse_createCard)"
    by (simp add: signed_request_def)
  have kind: "classify (type_of sparse_createCard) \<noteq> Unknown"
    by (simp add: sparse_createCard_def sample_simps classify_def)
  have absent: "map_of sparse_createCard (lit ''date'') = None"
    by (simp add: sparse_createCard_def map_of_sample)
  have raises: "create_embed (sample_env None (Some working_channel)) (PDict sparse_createCard)
      = Inl ValueError"
    by (simp add: create_embed_def sparse_createCard_def typed_def embed_createCard_def
        get_data_def parse_date_empty)
  from unparsable_date_is_dropped [OF verify_unconfigured decode webhook_body_action kind,
      of "Some working_channel"] absent raises
  show ?thesis
    by (auto simp: prod_eq_iff sample_env_def)
qed


end
